theory Spec2Isabelle
  imports Main "HOL-Library.Word" "HOL-Library.List_Lexorder" "HOL-Library.Char_ord"
    "HOL-Library.Multiset" "HOL-Library.AList"
begin

unbundle bit_operations_syntax

section \<open>JSON-compatible values and the object store\<close>

text \<open>
  The transformer works on JavaScript values: the Jest project configuration is a live
  object, compared by identity (\<open>===\<close>), copied with the spread operator and serialised.
  Objects therefore live in a store; a value is a primitive or a reference into it.
  Property lists keep insertion order, as JavaScript objects do. Numbers are restricted
  to integers.
\<close>

type_synonym addr = nat

datatype val =
    VUndefined
  | VNull
  | VBool bool
  | VNum int
  | VStr string
  | VRef addr

datatype hobj =
    HObj "(string \<times> val) list"
  | HArr "val list"

type_synonym heap = "hobj list"

text \<open>The tree a value unfolds to when it is read through the store.\<close>

datatype json =
    JUndefined
  | JNull
  | JBool bool
  | JNum int
  | JStr string
  | JArr "json list"
  | JObj "(string \<times> json) list"

text \<open>
  A JavaScript reference always denotes an object; an address outside the store (which
  no JavaScript program can hold) reads as the empty object.
\<close>

definition deref :: "heap \<Rightarrow> addr \<Rightarrow> hobj" where
  "deref h a = (if a < length h then h ! a else HObj [])"

definition alloc :: "heap \<Rightarrow> hobj \<Rightarrow> addr \<times> heap" where
  "alloc h ob = (length h, h @ [ob])"

fun hexDigit :: "nat \<Rightarrow> char" where
  "hexDigit n = ''0123456789abcdef'' ! (n mod 16)"

fun showNat :: "nat \<Rightarrow> string" where
  "showNat n = (if n < 10 then [hexDigit n] else showNat (n div 10) @ [hexDigit (n mod 10)])"

declare showNat.simps [simp del]

definition showInt :: "int \<Rightarrow> string" where
  "showInt i = (if i < 0 then CHR ''-'' # showNat (nat (- i)) else showNat (nat i))"

text \<open>Own enumerable properties, as the spread \<open>{...x}\<close> copies them.\<close>

definition ownProps :: "heap \<Rightarrow> val \<Rightarrow> (string \<times> val) list" where
  "ownProps h v =
     (case v of
        VRef a \<Rightarrow>
          (case deref h a of
             HObj fs \<Rightarrow> fs
           | HArr vs \<Rightarrow> zip (map showNat [0..<length vs]) vs)
      | VStr s \<Rightarrow> zip (map showNat [0..<length s]) (map (\<lambda>c. VStr [c]) s)
      | _ \<Rightarrow> [])"

text \<open>Property read \<open>o.k\<close>, assignment \<open>o.k = v\<close> and \<open>delete o[k]\<close> on a plain object.\<close>

definition getProp :: "heap \<Rightarrow> addr \<Rightarrow> string \<Rightarrow> val" where
  "getProp h a k =
     (case deref h a of
        HObj fs \<Rightarrow> (case map_of fs k of None \<Rightarrow> VUndefined | Some v \<Rightarrow> v)
      | HArr vs \<Rightarrow> VUndefined)"

definition setProp :: "heap \<Rightarrow> addr \<Rightarrow> string \<Rightarrow> val \<Rightarrow> heap" where
  "setProp h a k v =
     (case deref h a of
        HObj fs \<Rightarrow> h[a := HObj (AList.update k v fs)]
      | HArr vs \<Rightarrow> h)"

definition deleteProp :: "heap \<Rightarrow> addr \<Rightarrow> string \<Rightarrow> heap" where
  "deleteProp h a k =
     (case deref h a of
        HObj fs \<Rightarrow> h[a := HObj (AList.delete k fs)]
      | HArr vs \<Rightarrow> h)"

text \<open>
  Reading a value through the store. The list \<open>seen\<close> holds the objects on the current
  path; meeting one of them again is a circular structure, the value \<open>None\<close>.
\<close>

function reify :: "heap \<Rightarrow> addr list \<Rightarrow> val \<Rightarrow> json option" where
  "reify h seen VUndefined = Some JUndefined"
| "reify h seen VNull = Some JNull"
| "reify h seen (VBool b) = Some (JBool b)"
| "reify h seen (VNum n) = Some (JNum n)"
| "reify h seen (VStr s) = Some (JStr s)"
| "reify h seen (VRef a) =
     (if a \<in> set seen then None
      else if length h \<le> a then Some (JObj [])
      else (case h ! a of
              HObj fs \<Rightarrow>
                map_option JObj
                  (those (map (\<lambda>kv. map_option (Pair (fst kv)) (reify h (a # seen) (snd kv))) fs))
            | HArr vs \<Rightarrow>
                map_option JArr (those (map (reify h (a # seen)) vs))))"
  by pat_completeness auto

termination
proof (relation "measure (\<lambda>(h, seen, v). card ({..<length h} - set seen))")
  have key: "((h, a # seen, v), (h, seen, VRef a))
           \<in> measure (\<lambda>(h, seen, v). card ({..<length h} - set seen))"
    if "a \<notin> set seen" and "\<not> length h \<le> a"
    for a :: addr and seen :: "addr list" and h :: heap and v :: val
  proof -
    have sub: "{..<length h} - set (a # seen) \<subseteq> {..<length h} - set seen"
      by auto
    have "a \<in> {..<length h} - set seen" and "a \<notin> {..<length h} - set (a # seen)"
      using that by simp_all
    with sub have "{..<length h} - set (a # seen) \<subset> {..<length h} - set seen"
      by blast
    moreover have "finite ({..<length h} - set seen)"
      by simp
    ultimately have "card ({..<length h} - set (a # seen)) < card ({..<length h} - set seen)"
      by (rule psubset_card_mono [rotated])
    then show ?thesis
      by (simp only: in_measure prod.case)
  qed
  show "wf (measure (\<lambda>(h, seen, v). card ({..<length h} - set seen)))"
    by simp
  show "\<And>(h::heap) seen a x1 x. a \<notin> set seen \<Longrightarrow> \<not> length h \<le> a \<Longrightarrow>
          ((h, a # seen, snd x), h, seen, VRef a)
            \<in> measure (\<lambda>(h, seen, v). card ({..<length h} - set seen))"
    by (rule key)
  show "\<And>(h::heap) seen a x2 x. a \<notin> set seen \<Longrightarrow> \<not> length h \<le> a \<Longrightarrow>
          ((h, a # seen, x), h, seen, VRef a)
            \<in> measure (\<lambda>(h, seen, v). card ({..<length h} - set seen))"
    by (rule key)
qed


section \<open>Serialisation (utils/json)\<close>

text \<open>
  Modelled from the spec: the helper \<open>stringify\<close> of \<open>utils/json\<close> is not among the
  sources. The spec describes it as a canonical, deterministic text form of a
  JSON-compatible value in which two values that are deeply equal, ignoring key
  insertion order, produce identical output, and as JSON-escaping a string. The model is
  JSON text with the keys of every object sorted; as in JSON, a property whose value is
  \<open>undefined\<close> is left out, \<open>undefined\<close> in an array is written \<open>null\<close>, and a
  circular structure is a \<open>TypeError\<close>.
\<close>

definition escapeChar :: "char \<Rightarrow> string" where
  "escapeChar c =
     (if c = CHR 0x22 then [CHR 0x5C, CHR 0x22]
      else if c = CHR 0x5C then [CHR 0x5C, CHR 0x5C]
      else if c = CHR 0x08 then [CHR 0x5C, CHR ''b'']
      else if c = CHR 0x0C then [CHR 0x5C, CHR ''f'']
      else if c = CHR 0x0A then [CHR 0x5C, CHR ''n'']
      else if c = CHR 0x0D then [CHR 0x5C, CHR ''r'']
      else if c = CHR 0x09 then [CHR 0x5C, CHR ''t'']
      else if (of_char c :: nat) < 32
        then [CHR 0x5C, CHR ''u'', CHR ''0'', CHR ''0'',
              hexDigit (of_char c div 16), hexDigit (of_char c mod 16)]
      else [c])"

definition quoteString :: "string \<Rightarrow> string" where
  "quoteString s = [CHR 0x22] @ concat (map escapeChar s) @ [CHR 0x22]"

fun joinComma :: "string list \<Rightarrow> string" where
  "joinComma [] = []"
| "joinComma [x] = x"
| "joinComma (x # y # ys) = x @ '','' @ joinComma (y # ys)"

definition member :: "string \<times> string option \<Rightarrow> string option" where
  "member kv =
     (case snd kv of
        None \<Rightarrow> None
      | Some s \<Rightarrow> Some (quoteString (fst kv) @ '':'' @ s))"

definition element :: "string option \<Rightarrow> string" where
  "element r = (case r of None \<Rightarrow> ''null'' | Some s \<Rightarrow> s)"

primrec ser :: "json \<Rightarrow> string option" where
  "ser JUndefined = None"
| "ser JNull = Some ''null''"
| "ser (JBool b) = Some (if b then ''true'' else ''false'')"
| "ser (JNum n) = Some (showInt n)"
| "ser (JStr s) = Some (quoteString s)"
| "ser (JArr xs) = Some (''['' @ joinComma (map element (map ser xs)) @ '']'')"
| "ser (JObj fs) =
     Some (''{'' @ joinComma (List.map_filter member (sort_key fst (map (map_prod id ser) fs)))
           @ ''}'')"

definition stringifyJson :: "json \<Rightarrow> string" where
  "stringifyJson t = (case ser t of None \<Rightarrow> ''undefined'' | Some s \<Rightarrow> s)"

datatype error =
    TypeError string
  | Thrown string

definition stringify :: "heap \<Rightarrow> val \<Rightarrow> error + string" where
  "stringify h v =
     (case reify h [] v of
        None \<Rightarrow> Inl (TypeError ''Converting circular structure to JSON'')
      | Some t \<Rightarrow> Inr (stringifyJson t))"


section \<open>Digest (utils/sha1)\<close>

text \<open>
  Modelled from the spec: the helper \<open>sha1\<close> of \<open>utils/sha1\<close> is not among the sources.
  The spec describes it as a fixed-length, 40-character hexadecimal content digest over
  the concatenation of its segments; the source names the algorithm. The model is SHA-1
  (FIPS 180-4) over the bytes of the concatenated segments, written in lower-case
  hexadecimal.
\<close>

type_synonym w32 = "32 word"

definition be32 :: "nat list \<Rightarrow> w32" where
  "be32 bs = foldl (\<lambda>w b. push_bit 8 w OR of_nat b) 0 bs"

fun chunk :: "nat \<Rightarrow> 'a list \<Rightarrow> 'a list list" where
  "chunk n xs = (if n = 0 \<or> xs = [] then [] else take n xs # chunk n (drop n xs))"

declare chunk.simps [simp del]

definition pad :: "nat list \<Rightarrow> nat list" where
  "pad bs =
     bs @ [128] @ replicate ((119 - length bs mod 64) mod 64) 0
        @ map (\<lambda>i. (8 * length bs) div 2 ^ (8 * (7 - i)) mod 256) [0..<8]"

fun expand :: "nat \<Rightarrow> w32 list \<Rightarrow> w32 list" where
  "expand 0 ws = ws"
| "expand (Suc k) ws =
     expand k
       (ws @ [word_rotl 1
                (ws ! (length ws - 3) XOR ws ! (length ws - 8)
                 XOR ws ! (length ws - 14) XOR ws ! (length ws - 16))])"

definition schedule :: "nat list \<Rightarrow> w32 list" where
  "schedule block = expand 64 (map be32 (chunk 4 block))"

definition ft :: "nat \<Rightarrow> w32 \<Rightarrow> w32 \<Rightarrow> w32 \<Rightarrow> w32" where
  "ft t b c d =
     (if t < 20 then (b AND c) OR (NOT b AND d)
      else if t < 40 then b XOR c XOR d
      else if t < 60 then (b AND c) OR (b AND d) OR (c AND d)
      else b XOR c XOR d)"

definition kt :: "nat \<Rightarrow> w32" where
  "kt t =
     (if t < 20 then 0x5A827999
      else if t < 40 then 0x6ED9EBA1
      else if t < 60 then 0x8F1BBCDC
      else 0xCA62C1D6)"

type_synonym sha1State = "w32 \<times> w32 \<times> w32 \<times> w32 \<times> w32"

definition round :: "w32 list \<Rightarrow> sha1State \<Rightarrow> nat \<Rightarrow> sha1State" where
  "round ws st t =
     (case st of (a, b, c, d, e) \<Rightarrow>
        (word_rotl 5 a + ft t b c d + e + kt t + ws ! t, a, word_rotl 30 b, c, d))"

definition compress :: "sha1State \<Rightarrow> nat list \<Rightarrow> sha1State" where
  "compress hs block =
     (case hs of (h0, h1, h2, h3, h4) \<Rightarrow>
        (case foldl (round (schedule block)) hs [0..<80] of (a, b, c, d, e) \<Rightarrow>
           (h0 + a, h1 + b, h2 + c, h3 + d, h4 + e)))"

definition hex32 :: "w32 \<Rightarrow> string" where
  "hex32 w = map (\<lambda>i. hexDigit (unat (drop_bit (4 * (7 - i)) w AND 15))) [0..<8]"

definition sha1Hex :: "string \<Rightarrow> string" where
  "sha1Hex s =
     (case foldl compress
             (0x67452301, 0xEFCDAB89, 0x98BADCFE, 0x10325476, 0xC3D2E1F0)
             (chunk 64 (pad (map of_char s)))
      of (h0, h1, h2, h3, h4) \<Rightarrow> hex32 h0 @ hex32 h1 @ hex32 h2 @ hex32 h3 @ hex32 h4)"

definition sha1 :: "string list \<Rightarrow> string" where
  "sha1 segments = sha1Hex (concat segments)"


section \<open>Collaborators of the transformer\<close>

type_synonym props = "(string \<times> json) list"

text \<open>The result type \<open>TransformedSource | string\<close>.\<close>

datatype transformedSource =
    Str string
  | TransformedSource string "string option"

text \<open>
  What the transformer reads of a \<open>ConfigSet\<close>. The class itself is not among the
  sources; its members are the ones the transformer uses. \<open>csId\<close> is the identity of
  the object, \<open>tsCompiler\<close> stands for \<open>tsCompiler.compile\<close>, \<open>babelJestTransformer\<close>
  for the \<open>process\<close> method of the babel-jest transformer when one is configured, and
  \<open>afterProcess\<close> for \<open>hooks.afterProcess\<close>. A collaborator that throws returns \<open>Inl\<close>.
\<close>

record tsConfig =
  options :: props
  raw :: json

record configSet =
  csId :: nat
  rootDir :: string
  tsJestDigest :: string
  babelConfig :: json
  parsedTsConfig :: tsConfig
  shouldStringifyContent :: "string \<Rightarrow> bool"
  babelJestTransformer ::
    "(string \<Rightarrow> string \<Rightarrow> heap \<Rightarrow> addr \<Rightarrow> props \<Rightarrow> error + transformedSource) option"
  tsCompiler :: "string \<Rightarrow> string \<Rightarrow> error + string"
  afterProcess ::
    "(string \<Rightarrow> string \<Rightarrow> addr \<Rightarrow> props option \<Rightarrow> transformedSource
        \<Rightarrow> error + transformedSource option) option"

text \<open>
  The imports of the module whose values are not among the sources: the \<open>ConfigSet\<close>
  constructor, the constants of \<open>constants\<close> (the two regular expressions as their
  \<open>test\<close> predicates) and the message templates of \<open>utils/messages\<close> with
  \<open>interpolate\<close> (template, then the value of \<open>path\<close>). The constructor is handed the
  live configuration object (line 63) and may write to it and to whatever it refers to:
  it returns the configuration set together with the store as it leaves it.
\<close>

record deps =
  newConfigSet :: "heap \<Rightarrow> addr \<Rightarrow> error + (configSet \<times> heap)"
  DECLARATION_TYPE_EXT :: string
  JS_JSX_REGEX :: "string \<Rightarrow> bool"
  TS_TSX_REGEX :: "string \<Rightarrow> bool"
  GotJsFileButAllowJsFalse :: string
  GotUnknownFileTypeWithBabel :: string
  GotUnknownFileTypeWithoutBabel :: string
  interpolate :: "string \<Rightarrow> string \<Rightarrow> string"

section \<open>State of the transformer\<close>

text \<open>
  Modelled from the spec: the class \<open>JsonableValue\<close> is not among the sources. It pairs
  a value with its serialised form (the entry's \<open>identity\<close> and \<open>serializedIdentity\<close>
  of the spec); assigning \<open>value\<close> updates the stored object reference.
\<close>

record jsonableValue =
  jvalue :: addr
  serialized :: string

record cachedConfigSet =
  configSet :: configSet
  jestConfig :: jsonableValue
  transformerCfgStr :: string

datatype logLevel = LevelDebug | LevelInfo | LevelWarn

record logRecord =
  level :: logLevel
  fileName :: "string option"
  message :: "string list"

text \<open>Calls made to the collaborators, in order.\<close>

datatype call =
    CompileCall string string
  | BabelJestCall string string addr props
  | AfterProcessCall string string addr "props option" transformedSource

text \<open>
  \<open>cachedConfigSets\<close> is the static array of the class, \<open>transformCfgStr\<close> the field
  \<open>_transformCfgStr\<close> of the instance (unassigned until the first \<open>configsFor\<close>),
  \<open>configSetCount\<close> the number of \<open>ConfigSet\<close> objects constructed so far.
\<close>

record state =
  heap :: heap
  cachedConfigSets :: "cachedConfigSet list"
  transformCfgStr :: "string option"
  configSetCount :: nat
  logs :: "logRecord list"
  calls :: "call list"

definition logTo :: "state \<Rightarrow> logLevel \<Rightarrow> string option \<Rightarrow> string list \<Rightarrow> state" where
  "logTo st l f m = st\<lparr>logs := logs st @ [\<lparr>level = l, fileName = f, message = m\<rparr>]\<rparr>"

definition called :: "state \<Rightarrow> call \<Rightarrow> state" where
  "called st c = st\<lparr>calls := calls st @ [c]\<rparr>"


section \<open>configsFor\<close>

text \<open>The object found by \<open>Array.prototype.find\<close> is mutated in place.\<close>

fun updateFirst :: "('a \<Rightarrow> bool) \<Rightarrow> ('a \<Rightarrow> 'a) \<Rightarrow> 'a list \<Rightarrow> 'a list" where
  "updateFirst p f [] = []"
| "updateFirst p f (x # xs) = (if p x then f x # xs else x # updateFirst p f xs)"

text \<open>Property values of an object literal, each read through the store.\<close>

definition reifyProps :: "heap \<Rightarrow> (string \<times> val) list \<Rightarrow> props option" where
  "reifyProps h ps = those (map (\<lambda>kv. map_option (Pair (fst kv)) (reify h [] (snd kv))) ps)"

text \<open>Properties spread into an object literal after the ones already written.\<close>

definition spreadInto :: "props \<Rightarrow> props \<Rightarrow> props" where
  "spreadInto base ps = foldl (\<lambda>acc kv. AList.update (fst kv) (snd kv) acc) base ps"

text \<open>
  Lines 64 to 80: the copy \<open>jest\<close> of the configuration, the copy \<open>globals\<close> of its
  globals, the three fields cleared on the copies, and the serialised form of the
  literal \<open>{digest, babel, ...jest, tsconfig}\<close>. Both copies are new objects of the store.
\<close>

definition transformCfgStrFor :: "heap \<Rightarrow> configSet \<Rightarrow> addr \<Rightarrow> error + (string \<times> heap)" where
  "transformCfgStrFor h cs jestCfg =
     (let (jest, h1) = alloc h (HObj (ownProps h (VRef jestCfg)));
          (globals, h2) = alloc h1 (HObj (ownProps h1 (getProp h1 jest ''globals'')));
          h3 = setProp h2 jest ''globals'' (VRef globals);
          h4 = setProp h3 jest ''name'' VUndefined;
          h5 = setProp h4 jest ''cacheDirectory'' VUndefined;
          h6 = deleteProp h5 globals ''ts-jest''
      in case reifyProps h6 (ownProps h6 (VRef jest)) of
           None \<Rightarrow> Inl (TypeError ''Converting circular structure to JSON'')
         | Some ps \<Rightarrow>
             Inr (stringifyJson
                    (JObj (AList.update ''tsconfig''
                             (JObj [(''options'', JObj (options (parsedTsConfig cs))),
                                    (''raw'', raw (parsedTsConfig cs))])
                             (spreadInto
                                [(''digest'', JStr (tsJestDigest cs)),
                                 (''babel'', babelConfig cs)] ps))),
                  h6))"

text \<open>
  The branch that creates the new record in the index (lines 60 to 85). The copies of
  lines 64 and 65 and the serialised form of line 82 are taken from the store as the
  constructor of line 63 left it.
\<close>

definition createConfigSet :: "deps \<Rightarrow> state \<Rightarrow> addr \<Rightarrow> error + (configSet \<times> state)" where
  "createConfigSet d st jestCfg =
     (let st1 = logTo st LevelInfo None [''no matching config-set found, creating a new one'']
      in case newConfigSet d (heap st1) jestCfg of
           Inl e \<Rightarrow> Inl e
         | Inr (cs0, h0) \<Rightarrow>
             (let cs = cs0\<lparr>csId := configSetCount st1\<rparr>
              in case transformCfgStrFor h0 cs jestCfg of
                   Inl e \<Rightarrow> Inl e
                 | Inr (cfgStr, h') \<Rightarrow>
                     (case stringify h' (VRef jestCfg) of
                        Inl e \<Rightarrow> Inl e
                      | Inr sj \<Rightarrow>
                          Inr (cs,
                               st1\<lparr>heap := h',
                                   configSetCount := Suc (configSetCount st1),
                                   transformCfgStr := Some cfgStr,
                                   cachedConfigSets := cachedConfigSets st1 @
                                     [\<lparr>configSet = cs,
                                       jestConfig = \<lparr>jvalue = jestCfg, serialized = sj\<rparr>,
                                       transformerCfgStr = cfgStr\<rparr>]\<rparr>))))"

definition configsFor :: "deps \<Rightarrow> state \<Rightarrow> addr \<Rightarrow> error + (configSet \<times> state)" where
  "configsFor d st jestCfg =
     (case find (\<lambda>cs. jvalue (jestConfig cs) = jestCfg) (cachedConfigSets st) of
        Some ccs \<Rightarrow>
          Inr (configSet ccs, st\<lparr>transformCfgStr := Some (transformerCfgStr ccs)\<rparr>)
      | None \<Rightarrow>
          (case stringify (heap st) (VRef jestCfg) of
             Inl e \<Rightarrow> Inl e
           | Inr serializedJestCfg \<Rightarrow>
               (case find (\<lambda>cs. serialized (jestConfig cs) = serializedJestCfg)
                       (cachedConfigSets st) of
                  Some serializedCcs \<Rightarrow>
                    Inr (configSet serializedCcs,
                         st\<lparr>cachedConfigSets :=
                               updateFirst
                                 (\<lambda>cs. serialized (jestConfig cs) = serializedJestCfg)
                                 (\<lambda>cs. cs\<lparr>jestConfig := (jestConfig cs)\<lparr>jvalue := jestCfg\<rparr>\<rparr>)
                                 (cachedConfigSets st),
                             transformCfgStr := Some (transformerCfgStr serializedCcs)\<rparr>)
                | None \<Rightarrow> createConfigSet d st jestCfg)))"


section \<open>process\<close>

definition endsWith :: "string \<Rightarrow> string \<Rightarrow> bool" where
  "endsWith s suffix =
     (length suffix \<le> length s \<and> drop (length s - length suffix) s = suffix)"

text \<open>JavaScript truthiness, as \<open>!x\<close> and the conditional read it.\<close>

fun truthy :: "json \<Rightarrow> bool" where
  "truthy JUndefined = False"
| "truthy JNull = False"
| "truthy (JBool b) = b"
| "truthy (JNum n) = (n \<noteq> 0)"
| "truthy (JStr s) = (s \<noteq> [])"
| "truthy (JArr xs) = True"
| "truthy (JObj fs) = True"

definition propOf :: "props \<Rightarrow> string \<Rightarrow> json" where
  "propOf ps k = (case map_of ps k of None \<Rightarrow> JUndefined | Some v \<Rightarrow> v)"

text \<open>The options \<open>{ ...transformOptions, instrument: false }\<close>.\<close>

definition withoutInstrument :: "props option \<Rightarrow> props" where
  "withoutInstrument transformOptions =
     AList.update ''instrument'' (JBool False)
       (case transformOptions of None \<Rightarrow> [] | Some ps \<Rightarrow> ps)"

text \<open>The five branches of lines 112 to 136: the branch's result and the state after it.\<close>

definition selectBranch ::
  "deps \<Rightarrow> configSet \<Rightarrow> state \<Rightarrow> string \<Rightarrow> string \<Rightarrow> error + (string \<times> state)" where
  "selectBranch d configs st source filePath =
     (let shouldStringify = shouldStringifyContent configs filePath;
          babelJest = (if shouldStringify then None else babelJestTransformer configs);
          isDefinitionFile = endsWith filePath (DECLARATION_TYPE_EXT d);
          isJsFile = JS_JSX_REGEX d filePath;
          isTsFile = (\<not> isDefinitionFile \<and> TS_TSX_REGEX d filePath)
      in if shouldStringify then
           (case stringify (heap st) (VStr source) of
              Inl e \<Rightarrow> Inl e
            | Inr text \<Rightarrow> Inr (''module.exports='' @ text, st))
         else if isDefinitionFile then Inr ([], st)
         else if \<not> truthy (propOf (options (parsedTsConfig configs)) ''allowJs'') \<and> isJsFile then
           Inr (source,
                logTo st LevelWarn (Some filePath)
                  [interpolate d (GotJsFileButAllowJsFalse d) filePath])
         else if isJsFile \<or> isTsFile then
           (case tsCompiler configs source filePath of
              Inl e \<Rightarrow> Inl e
            | Inr out \<Rightarrow> Inr (out, called st (CompileCall source filePath)))
         else
           Inr (source,
                logTo st LevelWarn (Some filePath)
                  [interpolate d
                     (if babelJest \<noteq> None then GotUnknownFileTypeWithBabel d
                      else GotUnknownFileTypeWithoutBabel d)
                     filePath]))"

text \<open>Lines 137 to 143: the call of the babel-jest transformer, when there is one.\<close>

definition callBabelJest ::
  "(string \<Rightarrow> string \<Rightarrow> heap \<Rightarrow> addr \<Rightarrow> props \<Rightarrow> error + transformedSource) option
     \<Rightarrow> state \<Rightarrow> string \<Rightarrow> string \<Rightarrow> addr \<Rightarrow> props option
     \<Rightarrow> error + (transformedSource \<times> state)" where
  "callBabelJest babelJest st out filePath jestCfg transformOptions =
     (case babelJest of
        None \<Rightarrow> Inr (Str out, st)
      | Some babelProcess \<Rightarrow>
          (case babelProcess out filePath (heap st) jestCfg
                  (withoutInstrument transformOptions) of
             Inl e \<Rightarrow> Inl e
           | Inr r \<Rightarrow>
               Inr (r,
                    called
                      (logTo st LevelDebug (Some filePath) [''calling babel-jest processor''])
                      (BabelJestCall out filePath jestCfg
                         (withoutInstrument transformOptions)))))"

text \<open>Lines 144 to 155: the \<open>afterProcess\<close> hook, when there is one.\<close>

definition callAfterProcess ::
  "configSet \<Rightarrow> state \<Rightarrow> string \<Rightarrow> string \<Rightarrow> addr \<Rightarrow> props option \<Rightarrow> transformedSource
     \<Rightarrow> error + (transformedSource \<times> state)" where
  "callAfterProcess configs st input filePath jestCfg transformOptions result =
     (case afterProcess configs of
        None \<Rightarrow> Inr (result, st)
      | Some hook \<Rightarrow>
          (case hook input filePath jestCfg transformOptions result of
             Inl e \<Rightarrow> Inl e
           | Inr newResult \<Rightarrow>
               Inr (case newResult of None \<Rightarrow> result | Some r \<Rightarrow> r,
                    called
                      (logTo st LevelDebug (Some filePath) [''calling afterProcess hook''])
                      (AfterProcessCall input filePath jestCfg transformOptions result))))"

definition process ::
  "deps \<Rightarrow> state \<Rightarrow> string \<Rightarrow> string \<Rightarrow> addr \<Rightarrow> props option
     \<Rightarrow> error + (transformedSource \<times> state)" where
  "process d st input filePath jestCfg transformOptions =
     (let st0 = logTo st LevelDebug (Some filePath) [''processing'', filePath]
      in case configsFor d st0 jestCfg of
           Inl e \<Rightarrow> Inl e
         | Inr (configs, st1) \<Rightarrow>
             (let babelJest = (if shouldStringifyContent configs filePath then None
                               else babelJestTransformer configs)
              in case selectBranch d configs st1 input filePath of
                   Inl e \<Rightarrow> Inl e
                 | Inr (out, st2) \<Rightarrow>
                     (case callBabelJest babelJest st2 out filePath jestCfg transformOptions of
                        Inl e \<Rightarrow> Inl e
                      | Inr (result, st3) \<Rightarrow>
                          callAfterProcess configs st3 input filePath jestCfg
                            transformOptions result)))"

section \<open>getCacheKey\<close>

record cacheKeyOptions =
  ckConfig :: addr
  ckInstrument :: "bool option"
  ckRootDir :: "string option"

definition getCacheKey ::
  "deps \<Rightarrow> state \<Rightarrow> string \<Rightarrow> string \<Rightarrow> string \<Rightarrow> cacheKeyOptions
     \<Rightarrow> error + (string \<times> state)" where
  "getCacheKey d st fileContent filePath jestConfigStr transformOptions =
     (case configsFor d st (ckConfig transformOptions) of
        Inl e \<Rightarrow> Inl e
      | Inr (configs, st1) \<Rightarrow>
          (let st2 = logTo st1 LevelDebug (Some filePath) [''computing cache key for'', filePath];
               instrument = (case ckInstrument transformOptions of None \<Rightarrow> False | Some b \<Rightarrow> b);
               rootDir' = (case ckRootDir transformOptions of
                             None \<Rightarrow> rootDir configs
                           | Some r \<Rightarrow> r)
           in case transformCfgStr st2 of
                None \<Rightarrow> Inl (TypeError ''_transformCfgStr is undefined'')
              | Some cfgStr \<Rightarrow>
                  Inr (sha1 [cfgStr, [CHR 0x00], rootDir', [CHR 0x00],
                             ''instrument:'' @ (if instrument then ''on'' else ''off''),
                             [CHR 0x00], fileContent, [CHR 0x00], filePath],
                       st2)))"

section \<open>Closed stores\<close>

text \<open>In a JavaScript store every reference denotes an object of the store.\<close>

fun okVal :: "nat \<Rightarrow> val \<Rightarrow> bool" where
  "okVal n (VRef a) = (a < n)"
| "okVal n v = True"

fun okObj :: "nat \<Rightarrow> hobj \<Rightarrow> bool" where
  "okObj n (HObj fs) = list_all (\<lambda>kv. okVal n (snd kv)) fs"
| "okObj n (HArr vs) = list_all (okVal n) vs"

definition wfHeap :: "heap \<Rightarrow> bool" where
  "wfHeap h = list_all (okObj (length h)) h"

section \<open>Configurations without the stripped fields\<close>




section \<open>The index of configuration sets\<close>

text \<open>
  What holds of the index as long as the configuration objects it has seen are not
  modified: the store is closed, every entry holds an object of the store together with
  the serialised form of that object, no two entries have the same serialised form, and
  the configuration sets of the entries are distinct objects constructed earlier.
\<close>

definition entryOk :: "state \<Rightarrow> cachedConfigSet \<Rightarrow> bool" where
  "entryOk st e =
     (jvalue (jestConfig e) < length (heap st)
      \<and> stringify (heap st) (VRef (jvalue (jestConfig e))) = Inr (serialized (jestConfig e))
      \<and> csId (configSet e) < configSetCount st)"

definition cacheOk :: "state \<Rightarrow> bool" where
  "cacheOk st =
     (wfHeap (heap st)
      \<and> list_all (entryOk st) (cachedConfigSets st)
      \<and> distinct (map (\<lambda>e. serialized (jestConfig e)) (cachedConfigSets st))
      \<and> distinct (map (\<lambda>e. csId (configSet e)) (cachedConfigSets st)))"

text \<open>
  The index read as a map from the serialised form of a configuration to the
  configuration set and the transform signature kept for it.
\<close>

definition indexOf :: "state \<Rightarrow> string \<rightharpoonup> configSet \<times> string" where
  "indexOf st =
     map_of (map (\<lambda>e. (serialized (jestConfig e), (configSet e, transformerCfgStr e)))
               (cachedConfigSets st))"

text \<open>Successive calls of \<open>configsFor\<close>, with the configuration sets they return.\<close>

fun configsForAll :: "deps \<Rightarrow> state \<Rightarrow> addr list \<Rightarrow> error + (configSet list \<times> state)" where
  "configsForAll d st [] = Inr ([], st)"
| "configsForAll d st (a # as) =
     (case configsFor d st a of
        Inl e \<Rightarrow> Inl e
      | Inr (cs, st1) \<Rightarrow>
          (case configsForAll d st1 as of
             Inl e \<Rightarrow> Inl e
           | Inr (css, st2) \<Rightarrow> Inr (cs # css, st2)))"

text \<open>The warning records of the log.\<close>

definition warnings :: "state \<Rightarrow> logRecord list" where
  "warnings st = filter (\<lambda>r. level r = LevelWarn) (logs st)"

section \<open>Sample collaborators and states\<close>

text \<open>
  Concrete values for the examples. The constants are the usual ones (\<open>.d.ts\<close>, and
  the suffixes the two regular expressions accept); the message templates follow the
  texts that the snapshots of the unit tests show, with \<open>{{path}}\<close> for the file name
  and with each line break and its indentation written as a space. The constructor of
  \<open>sampleDeps\<close> is one that does not write to the store: it returns the store it was
  given.
\<close>

fun replaceAll :: "string \<Rightarrow> string \<Rightarrow> string \<Rightarrow> string" where
  "replaceAll pat by [] = []"
| "replaceAll pat by (c # cs) =
     (if pat \<noteq> [] \<and> take (length pat) (c # cs) = pat
      then by @ replaceAll pat by (drop (length pat - 1) cs)
      else c # replaceAll pat by cs)"

definition sampleDeps :: "(heap \<Rightarrow> addr \<Rightarrow> error + configSet) \<Rightarrow> deps" where
  "sampleDeps new =
     \<lparr>newConfigSet = (\<lambda>h a. case new h a of Inl e \<Rightarrow> Inl e | Inr cs \<Rightarrow> Inr (cs, h)),
      DECLARATION_TYPE_EXT = ''.d.ts'',
      JS_JSX_REGEX = (\<lambda>p. endsWith p ''.js'' \<or> endsWith p ''.jsx''),
      TS_TSX_REGEX = (\<lambda>p. endsWith p ''.ts'' \<or> endsWith p ''.tsx''),
      GotJsFileButAllowJsFalse =
        ''Got a `.js` file to compile while `allowJs` option is not set to `true` (file: {{path}}). To fix this: - if you want TypeScript to process JS files, set `allowJs` to `true` in your TypeScript config (usually tsconfig.json) - if you do not want TypeScript to process your `.js` files, in your Jest config change the `transform` key which value is `ts-jest` so that it does not match `.js` files anymore'',
      GotUnknownFileTypeWithBabel =
        ''Got a unknown file type to compile (file: {{path}}). To fix this, in your Jest config change the `transform` key which value is `ts-jest` so that it does not match this kind of files anymore. If you still want Babel to process it, add another entry to the `transform` option with value `babel-jest` which key matches this type of files.'',
      GotUnknownFileTypeWithoutBabel =
        ''Got a unknown file type to compile (file: {{path}}). To fix this, in your Jest config change the `transform` key which value is `ts-jest` so that it does not match this kind of files anymore.'',
      interpolate = (\<lambda>template path. replaceAll ''{{path}}'' path template)\<rparr>"

definition sampleConfigSet :: configSet where
  "sampleConfigSet =
     \<lparr>csId = 0, rootDir = ''/project'', tsJestDigest = ''digest'', babelConfig = JUndefined,
      parsedTsConfig = \<lparr>options = [], raw = JObj []\<rparr>,
      shouldStringifyContent = (\<lambda>p. endsWith p ''.html''),
      babelJestTransformer = None,
      tsCompiler = (\<lambda>source p. Inr (''compiled:'' @ source)),
      afterProcess = None\<rparr>"

definition sampleBabelJest ::
  "string \<Rightarrow> string \<Rightarrow> heap \<Rightarrow> addr \<Rightarrow> props \<Rightarrow> error + transformedSource" where
  "sampleBabelJest code p h a opts = Inr (TransformedSource (''babel:'' @ code) None)"

definition sampleHook ::
  "string \<Rightarrow> string \<Rightarrow> addr \<Rightarrow> props option \<Rightarrow> transformedSource
     \<Rightarrow> error + transformedSource option" where
  "sampleHook input p a opts r = Inr (Some (Str ''hooked''))"

definition babelConfigSet :: configSet where
  "babelConfigSet = sampleConfigSet\<lparr>babelJestTransformer := Some sampleBabelJest\<rparr>"

definition hookedConfigSet :: configSet where
  "hookedConfigSet = sampleConfigSet\<lparr>afterProcess := Some sampleHook\<rparr>"

text \<open>A transformer that has not been used yet, over a given store.\<close>

definition newState :: "heap \<Rightarrow> state" where
  "newState h =
     \<lparr>heap = h, cachedConfigSets = [], transformCfgStr = None, configSetCount = 0,
      logs = [], calls = []\<rparr>"





text \<open>
  A transformer whose index already holds the configuration set of the empty
  configuration object at address 0.
\<close>

definition cachedState :: "configSet \<Rightarrow> state" where
  "cachedState cs =
     \<lparr>heap = [HObj []],
      cachedConfigSets =
        [\<lparr>configSet = cs, jestConfig = \<lparr>jvalue = 0, serialized = ''{}''\<rparr>,
          transformerCfgStr = ''{}''\<rparr>],
      transformCfgStr = None, configSetCount = 1, logs = [], calls = []\<rparr>"

section \<open>The cache key is forty hexadecimal characters\<close>

lemma hexDigit_mem: "hexDigit n \<in> set ''0123456789abcdef''"
proof -
  have "n mod 16 < length ''0123456789abcdef''" by simp
  then have "''0123456789abcdef'' ! (n mod 16) \<in> set ''0123456789abcdef''"
    by (rule nth_mem)
  then show ?thesis by (simp only: hexDigit.simps)
qed

lemma length_hex32: "length (hex32 w) = 8"
  by (simp add: hex32_def)

lemma set_hex32: "set (hex32 w) \<subseteq> set ''0123456789abcdef''"
  unfolding hex32_def using hexDigit_mem by (auto simp del: hexDigit.simps)

lemma length_sha1Hex: "length (sha1Hex s) = 40"
  by (simp add: sha1Hex_def length_hex32 split: prod.splits)

lemma set_sha1Hex: "set (sha1Hex s) \<subseteq> set ''0123456789abcdef''"
proof -
  obtain h0 h1 h2 h3 h4 where
    "foldl compress (0x67452301, 0xEFCDAB89, 0x98BADCFE, 0x10325476, 0xC3D2E1F0)
       (chunk 64 (pad (map of_char s))) = (h0, h1, h2, h3, h4)"
    by (rule prod_cases5)
  then have "sha1Hex s = hex32 h0 @ hex32 h1 @ hex32 h2 @ hex32 h3 @ hex32 h4"
    by (simp add: sha1Hex_def)
  then have "set (sha1Hex s) =
      set (hex32 h0) \<union> set (hex32 h1) \<union> set (hex32 h2) \<union> set (hex32 h3) \<union> set (hex32 h4)"
    by (simp only: set_append Un_assoc)
  then show ?thesis
    using set_hex32 [of h0] set_hex32 [of h1] set_hex32 [of h2] set_hex32 [of h3]
      set_hex32 [of h4]
    by (simp only: Un_subset_iff simp_thms)
qed

lemma createConfigSet_cfgStr:
  "createConfigSet d st a = Inr (cs, st') \<Longrightarrow> transformCfgStr st' \<noteq> None"
  by (auto simp: createConfigSet_def Let_def split: sum.splits prod.splits)

lemma configsFor_cfgStr:
  "configsFor d st a = Inr (cs, st') \<Longrightarrow> transformCfgStr st' \<noteq> None"
  by (auto simp: configsFor_def dest: createConfigSet_cfgStr split: option.splits sum.splits)

text \<open>
  Claim C6. Whatever the file content, the file path, the configuration string and the
  options are, \<open>getCacheKey\<close> either fails because \<open>configsFor\<close> failed on the
  configuration of the options, with the same error, or returns a key of exactly 40
  characters, each of them a hexadecimal digit.
\<close>

theorem getCacheKey_hex40:
  "case getCacheKey d st fileContent filePath jestConfigStr opts of
     Inl e \<Rightarrow> configsFor d st (ckConfig opts) = Inl e
   | Inr (key, st') \<Rightarrow> length key = 40 \<and> set key \<subseteq> set ''0123456789abcdef''"
proof (cases "configsFor d st (ckConfig opts)")
  case (Inl e)
  then show ?thesis by (simp add: getCacheKey_def)
next
  case (Inr r)
  obtain cs st1 where r: "r = (cs, st1)" by (cases r)
  from Inr r have "transformCfgStr st1 \<noteq> None"
    by (auto dest: configsFor_cfgStr)
  then obtain c where c: "transformCfgStr st1 = Some c" by auto
  show ?thesis
    using Inr r c length_sha1Hex set_sha1Hex
    by (simp add: getCacheKey_def logTo_def sha1_def Let_def)
qed

section \<open>The stages of process\<close>

lemma createConfigSet_calls:
  "createConfigSet d st a = Inr (cs, st') \<Longrightarrow> calls st' = calls st"
  by (auto simp: createConfigSet_def logTo_def Let_def split: sum.splits prod.splits)

lemma configsFor_calls:
  "configsFor d st a = Inr (cs, st') \<Longrightarrow> calls st' = calls st"
  by (auto simp: configsFor_def dest: createConfigSet_calls split: option.splits sum.splits)

lemma createConfigSet_warnings:
  "createConfigSet d st a = Inr (cs, st') \<Longrightarrow> warnings st' = warnings st"
  by (auto simp: createConfigSet_def logTo_def warnings_def Let_def split: sum.splits prod.splits)

lemma configsFor_warnings:
  "configsFor d st a = Inr (cs, st') \<Longrightarrow> warnings st' = warnings st"
  by (auto simp: configsFor_def warnings_def dest: createConfigSet_warnings [unfolded warnings_def]
      split: option.splits sum.splits)

lemma callBabelJest_warnings:
  "callBabelJest b st out p a t = Inr (r, st') \<Longrightarrow> warnings st' = warnings st"
  by (auto simp: callBabelJest_def warnings_def logTo_def called_def
      split: option.splits sum.splits)

lemma callAfterProcess_warnings:
  "callAfterProcess c st i p a t r = Inr (r', st') \<Longrightarrow> warnings st' = warnings st"
  by (auto simp: callAfterProcess_def warnings_def logTo_def called_def
      split: option.splits sum.splits)

lemma stringify_VStr: "stringify h (VStr s) = Inr (quoteString s)"
  by (simp add: stringify_def stringifyJson_def)

lemma propOf_update:
  "propOf (AList.update k v ps) k' = (if k' = k then v else propOf ps k')"
  by (simp add: propOf_def update_conv')

subsection \<open>Facts about the sample values\<close>

lemma configsFor_cachedState:
  "configsFor d (logTo (cachedState cs) l f m) 0 =
     Inr (cs, (logTo (cachedState cs) l f m)\<lparr>transformCfgStr := Some ''{}''\<rparr>)"
  by (simp add: configsFor_def cachedState_def logTo_def)

lemma calls_cachedState:
  "calls ((logTo (cachedState cs) l f m)\<lparr>transformCfgStr := x\<rparr>) = []"
  by (simp add: logTo_def cachedState_def)

lemma sampleConfigSet_simps:
  "afterProcess sampleConfigSet = None"
  "babelJestTransformer sampleConfigSet = None"
  "shouldStringifyContent sampleConfigSet p = endsWith p ''.html''"
  "options (parsedTsConfig sampleConfigSet) = []"
  by (simp_all add: sampleConfigSet_def)

lemma babelConfigSet_simps:
  "afterProcess babelConfigSet = None"
  "babelJestTransformer babelConfigSet = Some sampleBabelJest"
  "shouldStringifyContent babelConfigSet p = endsWith p ''.html''"
  "options (parsedTsConfig babelConfigSet) = []"
  by (simp_all add: babelConfigSet_def sampleConfigSet_def)

lemma hookedConfigSet_simps:
  "afterProcess hookedConfigSet = Some sampleHook"
  "babelJestTransformer hookedConfigSet = None"
  "shouldStringifyContent hookedConfigSet p = endsWith p ''.html''"
  "options (parsedTsConfig hookedConfigSet) = []"
  by (simp_all add: hookedConfigSet_def sampleConfigSet_def)

lemma sampleDeps_simps:
  "DECLARATION_TYPE_EXT (sampleDeps n) = ''.d.ts''"
  "JS_JSX_REGEX (sampleDeps n) p = (endsWith p ''.js'' \<or> endsWith p ''.jsx'')"
  "TS_TSX_REGEX (sampleDeps n) p = (endsWith p ''.ts'' \<or> endsWith p ''.tsx'')"
  by (simp_all add: sampleDeps_def)

lemma sample_paths:
  "endsWith ''foo.html'' ''.html''"
  "\<not> endsWith ''foo.d.ts'' ''.html''"
  "\<not> endsWith ''foo.js'' ''.html''"
  "endsWith ''foo.d.ts'' ''.d.ts''"
  "\<not> endsWith ''foo.js'' ''.d.ts''"
  "endsWith ''foo.js'' ''.js''"
  by (simp_all add: endsWith_def)

lemma quote_hello:
  \<open>quoteString ''<h1>Hello World</h1>'' = ''"<h1>Hello World</h1>"''\<close>
  by (simp add: quoteString_def escapeChar_def)

lemma sample_message:
  "interpolate (sampleDeps n) (GotJsFileButAllowJsFalse (sampleDeps n)) ''foo.js'' =
   ''Got a `.js` file to compile while `allowJs` option is not set to `true` (file: foo.js). To fix this: - if you want TypeScript to process JS files, set `allowJs` to `true` in your TypeScript config (usually tsconfig.json) - if you do not want TypeScript to process your `.js` files, in your Jest config change the `transform` key which value is `ts-jest` so that it does not match `.js` files anymore''"
  by (simp add: sampleDeps_def)

section \<open>Stringified content\<close>

text \<open>
  Claim C8, amended. When \<open>configsFor\<close> succeeds and the file path matches the
  stringify pattern of the configuration set, the text \<open>module.exports=\<close> followed by
  the JSON-quoted file content is what \<open>process\<close> hands to the \<open>afterProcess\<close> hook;
  it is the result of \<open>process\<close> when the configuration set has no such hook. Neither
  the compiler nor the babel-jest transformer is called.
\<close>

theorem process_stringify_module:
  assumes "configsFor d (logTo st LevelDebug (Some filePath) [''processing'', filePath]) jestCfg
             = Inr (configs, st1)"
    and "shouldStringifyContent configs filePath"
  shows "process d st input filePath jestCfg transformOptions =
           callAfterProcess configs st1 input filePath jestCfg transformOptions
             (Str (''module.exports='' @ quoteString input))
         \<and> (afterProcess configs = None \<longrightarrow>
              process d st input filePath jestCfg transformOptions =
                Inr (Str (''module.exports='' @ quoteString input), st1))
         \<and> calls st1 = calls st"
  using assms configsFor_calls [OF assms(1)]
  by (simp add: process_def selectBranch_def callBabelJest_def callAfterProcess_def
      stringify_VStr logTo_def Let_def)

text \<open>
  The example of the unit test: content \<open><h1>Hello World</h1>\<close> at path \<open>foo.html\<close>.
\<close>

theorem process_stringify_module_witness:
  \<open>shouldStringifyContent sampleConfigSet ''foo.html''
   \<and> process (sampleDeps (\<lambda>h a. Inr sampleConfigSet)) (cachedState sampleConfigSet)
         ''<h1>Hello World</h1>'' ''foo.html'' 0 None =
       Inr (Str ''module.exports="<h1>Hello World</h1>"'',
            (logTo (cachedState sampleConfigSet) LevelDebug (Some ''foo.html'')
               [''processing'', ''foo.html''])\<lparr>transformCfgStr := Some ''{}''\<rparr>)\<close>
proof -
  have s: "shouldStringifyContent sampleConfigSet ''foo.html''"
    by (simp add: sampleConfigSet_simps sample_paths)
  from process_stringify_module [where d = "sampleDeps (\<lambda>h a. Inr sampleConfigSet)"
      and input = "''<h1>Hello World</h1>''" and transformOptions = None,
      OF configsFor_cachedState s]
  show ?thesis
    using s by (simp add: sampleConfigSet_simps quote_hello callAfterProcess_def)
qed

text \<open>
  Claim C8 as stated fails when the configuration set has an \<open>afterProcess\<close> hook that
  returns a value: that value is the result.
\<close>

theorem process_stringify_module_counterexample:
  \<open>shouldStringifyContent hookedConfigSet ''foo.html''
   \<and> map_sum id fst
        (process (sampleDeps (\<lambda>h a. Inr sampleConfigSet)) (cachedState hookedConfigSet)
           ''<h1>Hello World</h1>'' ''foo.html'' 0 None) = Inr (Str ''hooked'')
   \<and> Str ''hooked'' \<noteq> Str ''module.exports="<h1>Hello World</h1>"''\<close>
  by (simp add: process_def configsFor_cachedState selectBranch_def callBabelJest_def
      callAfterProcess_def stringify_VStr hookedConfigSet_simps sample_paths sampleHook_def
      Let_def)

section \<open>Declaration files\<close>

text \<open>
  Claim C7, amended. When \<open>configsFor\<close> succeeds, the file path ends with the
  declaration extension and does not match the stringify pattern, the selected branch
  yields the empty string whatever the content is, and the compiler is not called. The
  empty string then goes through the babel-jest transformer, when one is configured, and
  through the \<open>afterProcess\<close> hook; with neither of them, \<open>process\<close> returns the empty
  string.
\<close>

theorem process_declaration:
  assumes "configsFor d (logTo st LevelDebug (Some filePath) [''processing'', filePath]) jestCfg
             = Inr (configs, st1)"
    and "\<not> shouldStringifyContent configs filePath"
    and "endsWith filePath (DECLARATION_TYPE_EXT d)"
  shows "selectBranch d configs st1 input filePath = Inr ([], st1)
         \<and> process d st input filePath jestCfg transformOptions =
             (case callBabelJest (babelJestTransformer configs) st1 [] filePath jestCfg
                     transformOptions of
                Inl e \<Rightarrow> Inl e
              | Inr (result, st3) \<Rightarrow>
                  callAfterProcess configs st3 input filePath jestCfg transformOptions result)
         \<and> (babelJestTransformer configs = None \<longrightarrow> afterProcess configs = None \<longrightarrow>
              process d st input filePath jestCfg transformOptions = Inr (Str [], st1))
         \<and> calls st1 = calls st"
  using assms configsFor_calls [OF assms(1)]
  by (simp add: process_def selectBranch_def callBabelJest_def callAfterProcess_def
      logTo_def Let_def)

text \<open>The example of the unit test: \<open>foo.d.ts\<close>.\<close>

theorem process_declaration_witness:
  "\<not> shouldStringifyContent sampleConfigSet ''foo.d.ts''
   \<and> endsWith ''foo.d.ts'' (DECLARATION_TYPE_EXT (sampleDeps (\<lambda>h a. Inr sampleConfigSet)))
   \<and> process (sampleDeps (\<lambda>h a. Inr sampleConfigSet)) (cachedState sampleConfigSet)
         ''type Foo = number'' ''foo.d.ts'' 0 None =
       Inr (Str [],
            (logTo (cachedState sampleConfigSet) LevelDebug (Some ''foo.d.ts'')
               [''processing'', ''foo.d.ts''])\<lparr>transformCfgStr := Some ''{}''\<rparr>)"
proof -
  have s: "\<not> shouldStringifyContent sampleConfigSet ''foo.d.ts''"
    by (simp add: sampleConfigSet_simps sample_paths)
  have e: "endsWith ''foo.d.ts'' (DECLARATION_TYPE_EXT (sampleDeps (\<lambda>h a. Inr sampleConfigSet)))"
    by (simp add: sampleDeps_simps sample_paths)
  from process_declaration [where input = "''type Foo = number''" and transformOptions = None,
      OF configsFor_cachedState s e]
  show ?thesis
    using s e by (simp add: sampleConfigSet_simps callAfterProcess_def callBabelJest_def)
qed

text \<open>
  Claim C7 as stated fails when a babel-jest transformer is configured: the result is
  what that transformer makes of the empty string.
\<close>

theorem process_declaration_counterexample:
  "endsWith ''foo.d.ts'' (DECLARATION_TYPE_EXT (sampleDeps (\<lambda>h a. Inr sampleConfigSet)))
   \<and> map_sum id fst
        (process (sampleDeps (\<lambda>h a. Inr sampleConfigSet)) (cachedState babelConfigSet)
           ''type Foo = number'' ''foo.d.ts'' 0 None) =
       Inr (TransformedSource ''babel:'' None)
   \<and> TransformedSource ''babel:'' None \<noteq> Str []"
  by (simp add: process_def configsFor_cachedState selectBranch_def callBabelJest_def
      callAfterProcess_def babelConfigSet_simps sampleDeps_simps sample_paths
      sampleBabelJest_def Let_def)

section \<open>JavaScript files without allowJs\<close>

text \<open>
  Claim C9, amended. When \<open>configsFor\<close> succeeds, the file path matches the JS/JSX
  pattern, is neither stringified nor a declaration file, and \<open>allowJs\<close> is unset or
  falsy, the selected branch yields the content unchanged and logs one warning, whose
  context is the file path and whose message is the template \<open>GotJsFileButAllowJsFalse\<close>
  interpolated with the file path. With no babel-jest transformer and no
  \<open>afterProcess\<close> hook, \<open>process\<close> returns the content unchanged. Whenever \<open>process\<close>
  returns, this warning is the only one it has added to the log.
\<close>

theorem process_disallowed_js:
  assumes "configsFor d (logTo st LevelDebug (Some filePath) [''processing'', filePath]) jestCfg
             = Inr (configs, st1)"
    and "\<not> shouldStringifyContent configs filePath"
    and "\<not> endsWith filePath (DECLARATION_TYPE_EXT d)"
    and "JS_JSX_REGEX d filePath"
    and "\<not> truthy (propOf (options (parsedTsConfig configs)) ''allowJs'')"
  shows "selectBranch d configs st1 input filePath =
           Inr (input, logTo st1 LevelWarn (Some filePath)
                         [interpolate d (GotJsFileButAllowJsFalse d) filePath])
         \<and> (babelJestTransformer configs = None \<longrightarrow> afterProcess configs = None \<longrightarrow>
              process d st input filePath jestCfg transformOptions =
                Inr (Str input, logTo st1 LevelWarn (Some filePath)
                                  [interpolate d (GotJsFileButAllowJsFalse d) filePath]))
         \<and> (\<forall>r st'. process d st input filePath jestCfg transformOptions = Inr (r, st') \<longrightarrow>
               warnings st' = warnings st @
                 [\<lparr>level = LevelWarn, fileName = Some filePath,
                   message = [interpolate d (GotJsFileButAllowJsFalse d) filePath]\<rparr>])"
proof -
  let ?w = "logTo st1 LevelWarn (Some filePath)
              [interpolate d (GotJsFileButAllowJsFalse d) filePath]"
  have sb: "selectBranch d configs st1 input filePath = Inr (input, ?w)"
    using assms by (simp add: selectBranch_def Let_def)
  have w1: "warnings st1 = warnings st"
    using configsFor_warnings [OF assms(1)] by (simp add: warnings_def logTo_def)
  have ww: "warnings ?w = warnings st @
      [\<lparr>level = LevelWarn, fileName = Some filePath,
        message = [interpolate d (GotJsFileButAllowJsFalse d) filePath]\<rparr>]"
    using w1 by (simp add: warnings_def logTo_def)
  have p: "process d st input filePath jestCfg transformOptions =
      (case callBabelJest (babelJestTransformer configs) ?w input filePath jestCfg
              transformOptions of
         Inl e \<Rightarrow> Inl e
       | Inr (result, st3) \<Rightarrow>
           callAfterProcess configs st3 input filePath jestCfg transformOptions result)"
    using assms(1,2) sb by (simp add: process_def Let_def)
  have "warnings st' = warnings ?w"
    if "process d st input filePath jestCfg transformOptions = Inr (r, st')" for r st'
    using that unfolding p
    by (auto split: sum.splits prod.splits
        dest!: callBabelJest_warnings callAfterProcess_warnings)
  moreover have "babelJestTransformer configs = None \<Longrightarrow> afterProcess configs = None \<Longrightarrow>
      process d st input filePath jestCfg transformOptions = Inr (Str input, ?w)"
    unfolding p by (simp add: callBabelJest_def callAfterProcess_def)
  ultimately show ?thesis
    using sb ww by simp
qed

text \<open>The example of the unit test: \<open>const foo = 1\<close> at path \<open>foo.js\<close>.\<close>

theorem process_disallowed_js_witness:
  "\<not> shouldStringifyContent sampleConfigSet ''foo.js''
   \<and> \<not> endsWith ''foo.js'' (DECLARATION_TYPE_EXT (sampleDeps (\<lambda>h a. Inr sampleConfigSet)))
   \<and> JS_JSX_REGEX (sampleDeps (\<lambda>h a. Inr sampleConfigSet)) ''foo.js''
   \<and> \<not> truthy (propOf (options (parsedTsConfig sampleConfigSet)) ''allowJs'')
   \<and> map_sum id (\<lambda>(r, st'). (r, warnings st'))
        (process (sampleDeps (\<lambda>h a. Inr sampleConfigSet)) (cachedState sampleConfigSet)
           ''const foo = 1'' ''foo.js'' 0 None) =
       Inr (Str ''const foo = 1'',
            [\<lparr>level = LevelWarn, fileName = Some ''foo.js'',
              message = [''Got a `.js` file to compile while `allowJs` option is not set to `true` (file: foo.js). To fix this: - if you want TypeScript to process JS files, set `allowJs` to `true` in your TypeScript config (usually tsconfig.json) - if you do not want TypeScript to process your `.js` files, in your Jest config change the `transform` key which value is `ts-jest` so that it does not match `.js` files anymore'']\<rparr>])"
proof -
  let ?d = "sampleDeps (\<lambda>h a. Inr sampleConfigSet)"
  have s: "\<not> shouldStringifyContent sampleConfigSet ''foo.js''"
    by (simp add: sampleConfigSet_simps sample_paths)
  have e: "\<not> endsWith ''foo.js'' (DECLARATION_TYPE_EXT ?d)"
    by (simp add: sampleDeps_simps sample_paths)
  have j: "JS_JSX_REGEX ?d ''foo.js''"
    by (simp add: sampleDeps_simps sample_paths)
  have a: "\<not> truthy (propOf (options (parsedTsConfig sampleConfigSet)) ''allowJs'')"
    by (simp add: sampleConfigSet_simps propOf_def)
  from process_disallowed_js [where input = "''const foo = 1''" and transformOptions = None,
      OF configsFor_cachedState s e j a]
  have "process ?d (cachedState sampleConfigSet) ''const foo = 1'' ''foo.js'' 0 None =
      Inr (Str ''const foo = 1'',
           logTo ((logTo (cachedState sampleConfigSet) LevelDebug (Some ''foo.js'')
                      [''processing'', ''foo.js''])\<lparr>transformCfgStr := Some ''{}''\<rparr>)
             LevelWarn (Some ''foo.js'')
             [interpolate ?d (GotJsFileButAllowJsFalse ?d) ''foo.js''])"
    by (simp add: sampleConfigSet_simps)
  then show ?thesis
    using s e j a
    by (simp add: sample_message warnings_def logTo_def cachedState_def)
qed

text \<open>
  Claim C9 as stated fails when a babel-jest transformer is configured: the content is
  returned as that transformer changes it.
\<close>

theorem process_disallowed_js_counterexample:
  "\<not> shouldStringifyContent babelConfigSet ''foo.js''
   \<and> \<not> endsWith ''foo.js'' (DECLARATION_TYPE_EXT (sampleDeps (\<lambda>h a. Inr sampleConfigSet)))
   \<and> JS_JSX_REGEX (sampleDeps (\<lambda>h a. Inr sampleConfigSet)) ''foo.js''
   \<and> \<not> truthy (propOf (options (parsedTsConfig babelConfigSet)) ''allowJs'')
   \<and> map_sum id fst
        (process (sampleDeps (\<lambda>h a. Inr sampleConfigSet)) (cachedState babelConfigSet)
           ''const foo = 1'' ''foo.js'' 0 None) =
       Inr (TransformedSource ''babel:const foo = 1'' None)
   \<and> TransformedSource ''babel:const foo = 1'' None \<noteq> Str ''const foo = 1''"
  by (simp add: process_def configsFor_cachedState selectBranch_def callBabelJest_def
      callAfterProcess_def babelConfigSet_simps sampleDeps_simps sample_paths
      sampleBabelJest_def propOf_def Let_def)

section \<open>The babel-jest transformer\<close>

text \<open>
  Claim C3, amended. When \<open>configsFor\<close> succeeds, a babel-jest transformer is configured
  and the file path does not match the stringify pattern, the output of the selected
  branch (declaration file, disallowed JS, compiled, or unknown extension) is passed to
  the transformer together with the file path, the configuration object and the
  transform options in which \<open>instrument\<close> is \<open>false\<close> and every other option is the
  caller's; the transformer's result goes on to the \<open>afterProcess\<close> hook.
\<close>

theorem process_babel_jest:
  assumes "configsFor d (logTo st LevelDebug (Some filePath) [''processing'', filePath]) jestCfg
             = Inr (configs, st1)"
    and "babelJestTransformer configs = Some babelProcess"
    and "\<not> shouldStringifyContent configs filePath"
    and "selectBranch d configs st1 input filePath = Inr (out, st2)"
  shows "process d st input filePath jestCfg transformOptions =
           (case babelProcess out filePath (heap st2) jestCfg
                   (withoutInstrument transformOptions) of
              Inl e \<Rightarrow> Inl e
            | Inr r \<Rightarrow>
                callAfterProcess configs
                  (called
                     (logTo st2 LevelDebug (Some filePath) [''calling babel-jest processor''])
                     (BabelJestCall out filePath jestCfg (withoutInstrument transformOptions)))
                  input filePath jestCfg transformOptions r)
         \<and> propOf (withoutInstrument transformOptions) ''instrument'' = JBool False
         \<and> (\<forall>k. k \<noteq> ''instrument'' \<longrightarrow>
               propOf (withoutInstrument transformOptions) k =
               propOf (case transformOptions of None \<Rightarrow> [] | Some ps \<Rightarrow> ps) k)"
  using assms
  by (simp add: process_def callBabelJest_def withoutInstrument_def propOf_update Let_def
      split: sum.splits)

text \<open>A declaration file, with \<open>instrument: true\<close> supplied by the caller.\<close>

theorem process_babel_jest_witness:
  "babelJestTransformer babelConfigSet = Some sampleBabelJest
   \<and> \<not> shouldStringifyContent babelConfigSet ''foo.d.ts''
   \<and> map_sum id (\<lambda>(r, st'). (r, calls st'))
        (process (sampleDeps (\<lambda>h a. Inr sampleConfigSet)) (cachedState babelConfigSet)
          ''type Foo = number'' ''foo.d.ts'' 0 (Some [(''instrument'', JBool True)])) =
       Inr (TransformedSource ''babel:'' None,
            [BabelJestCall [] ''foo.d.ts'' 0 [(''instrument'', JBool False)]])"
proof -
  let ?d = "sampleDeps (\<lambda>h a. Inr sampleConfigSet)"
  have s: "\<not> shouldStringifyContent babelConfigSet ''foo.d.ts''"
    by (simp add: babelConfigSet_simps sample_paths)
  have b: "selectBranch ?d babelConfigSet st1 ''type Foo = number'' ''foo.d.ts'' = Inr ([], st1)"
    for st1
    by (simp add: selectBranch_def babelConfigSet_simps sampleDeps_simps sample_paths Let_def)
  from process_babel_jest [where transformOptions = "Some [(''instrument'', JBool True)]",
      OF configsFor_cachedState babelConfigSet_simps(2) s b]
  show ?thesis
    using s
    by (simp add: babelConfigSet_simps sampleBabelJest_def callAfterProcess_def
        withoutInstrument_def called_def logTo_def cachedState_def)
qed

text \<open>
  Claim C3 as stated fails on the stringify branch: line 108 drops the babel-jest
  transformer for a stringified file, and no call is made.
\<close>

theorem process_babel_jest_counterexample:
  \<open>babelJestTransformer babelConfigSet = Some sampleBabelJest
   \<and> map_sum id (\<lambda>(r, st'). (r, calls st'))
        (process (sampleDeps (\<lambda>h a. Inr sampleConfigSet)) (cachedState babelConfigSet)
          ''<h1>Hello World</h1>'' ''foo.html'' 0 None) =
       Inr (Str ''module.exports="<h1>Hello World</h1>"'', [])\<close>
  by (simp add: process_def configsFor_cachedState selectBranch_def callBabelJest_def
      callAfterProcess_def stringify_VStr babelConfigSet_simps sample_paths quote_hello
      calls_cachedState Let_def)


section \<open>What is written to the store\<close>






















section \<open>Lookup in the index\<close>









lemma cacheOk_unique:
  assumes "cacheOk st" and "e \<in> set (cachedConfigSets st)" and "e' \<in> set (cachedConfigSets st)"
    and "serialized (jestConfig e) = serialized (jestConfig e')"
  shows "e = e'"
proof -
  from assms(1) have "distinct (map (\<lambda>e. serialized (jestConfig e)) (cachedConfigSets st))"
    by (simp add: cacheOk_def)
  then have "inj_on (\<lambda>e. serialized (jestConfig e)) (set (cachedConfigSets st))"
    by (simp add: distinct_map)
  with assms(2-4) show ?thesis
    by (auto dest: inj_onD)
qed





lemma entryOk_upd [simp]:
  "entryOk (st\<lparr>transformCfgStr := x\<rparr>) = entryOk st"
  "entryOk (st\<lparr>cachedConfigSets := c\<rparr>) = entryOk st"
  by (rule ext, simp add: entryOk_def)+


lemma cacheOk_logTo [simp]: "cacheOk (logTo st l f m) = cacheOk st"
  by (simp add: cacheOk_def logTo_def entryOk_def [abs_def])

lemma indexOf_logTo [simp]: "indexOf (logTo st l f m) = indexOf st"
  by (simp add: indexOf_def logTo_def)

lemma heap_logTo [simp]: "heap (logTo st l f m) = heap st"
  by (simp add: logTo_def)









lemma configsForAll_length:
  "configsForAll d st as = Inr (css, st') \<Longrightarrow> length css = length as"
  by (induction as arbitrary: st css) (auto split: sum.splits prod.splits)



section \<open>The sample store\<close>




lemma heap_newState [simp]: "heap (newState h) = h"
  by (simp add: newState_def)







section \<open>The caller's configuration\<close>





section \<open>One entry for one configuration\<close>





section \<open>Configurations equal in content\<close>





end
